theory Spec2Isabelle
  imports Main
begin

section \<open>Python values and objects used by the wrappers\<close>

text \<open>
  The package \<open>mqtt\<close> consists of \<open>client.py\<close> (class \<open>MQTTClient\<close>), \<open>server.py\<close>
  (class \<open>MQTTServer\<close>) and \<open>__init__.py\<close>, which re-exports the two classes. Both
  classes wrap a \<open>paho.mqtt.client.Client\<close>. The paho library and \<open>json\<close> are not
  part of the package: the handle is modelled by what the wrappers do to it (the
  attributes they assign and the methods they call, in order), and \<open>json.dumps\<close> and
  \<open>bytes.decode\<close> are parameters.

  A keyword parameter with a default is an \<open>arg\<close>: omitted by the caller, or given.
  \<open>None\<close> is the \<open>None\<close> of an option type.
\<close>

datatype 'a arg = Omitted | Given 'a

definition arg_or :: "'a \<Rightarrow> 'a arg \<Rightarrow> 'a" where
  "arg_or d a = (case a of Omitted \<Rightarrow> d | Given v \<Rightarrow> v)"

text \<open>Truth value of a \<open>str | None\<close>: \<open>None\<close> and the empty string are false.\<close>

definition truthy_str :: "string option \<Rightarrow> bool" where
  "truthy_str s = (case s of None \<Rightarrow> False | Some t \<Rightarrow> t \<noteq> [])"


text \<open>
  \<open>str.strip()\<close> with no argument removes leading and trailing whitespace. The code
  points below 256 that Python counts as whitespace are 9 to 13, 28 to 32, 133 and 160.
\<close>

definition is_space :: "char \<Rightarrow> bool" where
  "is_space c = (of_char c \<in> {9::nat, 10, 11, 12, 13, 28, 29, 30, 31, 32, 133, 160})"

definition strip :: "string \<Rightarrow> string" where
  "strip s = rev (dropWhile is_space (rev (dropWhile is_space s)))"

subsection \<open>Objects with identity\<close>

text \<open>
  Lists are mutable and shared by reference, and every evaluation of a \<open>def\<close> statement
  makes a new function object. Both get their identity from one counter. The standard
  output is the list of the lines printed so far.
\<close>

type_synonym ref = nat

type_synonym sub_topic = "string \<times> int"

record world =
  list_objs :: "ref \<Rightarrow> sub_topic list"
  next_id :: ref
  stdout :: "string list"

definition new_list :: "sub_topic list \<Rightarrow> world \<Rightarrow> ref \<times> world" where
  "new_list xs w =
     (next_id w, w\<lparr>list_objs := (list_objs w)(next_id w := xs), next_id := Suc (next_id w)\<rparr>)"

text \<open>The state in which the interpreter starts to import the package.\<close>

definition world0 :: world where
  "world0 = \<lparr>list_objs = (\<lambda>_. []), next_id = 0, stdout = []\<rparr>"

text \<open>An in-place change of a list object (\<open>append\<close>, \<open>clear\<close>, \<open>xs[i] = v\<close>, ...).\<close>

definition list_mutate :: "ref \<Rightarrow> (sub_topic list \<Rightarrow> sub_topic list) \<Rightarrow> world \<Rightarrow> world" where
  "list_mutate r f w = w\<lparr>list_objs := (list_objs w)(r := f (list_objs w r))\<rparr>"

definition list_append :: "ref \<Rightarrow> sub_topic \<Rightarrow> world \<Rightarrow> world" where
  "list_append r x w = list_mutate r (\<lambda>xs. xs @ [x]) w"

text \<open>\<open>print(a, b)\<close> writes the two strings separated by one space.\<close>

definition py_print :: "string \<Rightarrow> string \<Rightarrow> world \<Rightarrow> world" where
  "py_print a b w = w\<lparr>stdout := stdout w @ [a @ '' '' @ b]\<rparr>"

subsection \<open>The paho client handle\<close>

text \<open>
  The callables the wrappers hand to paho: the bound methods \<open>self.on_connect\<close> and
  \<open>self.on_disconnect\<close>, the static method \<open>MQTTClient.on_message\<close>, a closure
  \<open>default_on_message\<close> made by the server's property getter (with its identity), and a
  callable of the caller's own.
\<close>

datatype handler =
    Bound_on_connect
  | Bound_on_disconnect
  | Static_on_message
  | Default_on_message ref
  | Callable nat

text \<open>
  A closure exists in a state when its identity has been given out; the other callables
  exist throughout.
\<close>

definition allocated :: "world \<Rightarrow> handler \<Rightarrow> bool" where
  "allocated w h = (case h of Default_on_message n \<Rightarrow> n < next_id w | _ \<Rightarrow> True)"

datatype paho_call =
    Connect string int int
  | Subscribe "sub_topic list"
  | Publish string string
  | Username_pw_set "string option" "string option"

record Client =
  paho_client_id :: string
  attrs :: "string \<rightharpoonup> handler"
  calls :: "paho_call list"

text \<open>\<open>Client(client_id=cid)\<close>: a new handle, no callback assigned, no method called.\<close>

definition Client_init :: "string \<Rightarrow> Client" where
  "Client_init cid = \<lparr>paho_client_id = cid, attrs = Map.empty, calls = []\<rparr>"

definition setattr :: "string \<Rightarrow> handler \<Rightarrow> Client \<Rightarrow> Client" where
  "setattr name h c = c\<lparr>attrs := (attrs c)(name \<mapsto> h)\<rparr>"

definition invoke :: "paho_call \<Rightarrow> Client \<Rightarrow> Client" where
  "invoke call c = c\<lparr>calls := calls c @ [call]\<rparr>"

text \<open>
  What the library does when a method of the handle is called is not part of the
  package. Whether \<open>connect(host, port, keepalive)\<close> and \<open>subscribe(topics)\<close> return or
  raise is a parameter: \<open>None\<close> when the call returns, the exception when it raises.
\<close>

datatype exn = Raised string

record paho_lib =
  connect_raises :: "string \<Rightarrow> int \<Rightarrow> int \<Rightarrow> exn option"
  subscribe_raises :: "sub_topic list \<Rightarrow> exn option"

text \<open>
  One such library, for concrete runs: paho's \<open>connect\<close> raises \<open>ValueError\<close> for an empty
  host, a port that is not positive and a negative keepalive; here every other call
  returns, as with a broker listening at the address.
\<close>

definition paho_argument_checks :: paho_lib where
  "paho_argument_checks =
     \<lparr>connect_raises = (\<lambda>host port keepalive.
         if host = [] then Some (Raised ''ValueError'')
         else if port \<le> 0 then Some (Raised ''ValueError'')
         else if keepalive < 0 then Some (Raised ''ValueError'')
         else None),
      subscribe_raises = (\<lambda>topics. None)\<rparr>"

text \<open>A \<open>message: str | dict\<close>, and a received \<open>MQTTMessage\<close>.\<close>

datatype 'd message = Str string | Dict 'd

record 'p MQTTMessage =
  topic :: string
  payload :: 'p

section \<open>client.py: class MQTTClient\<close>

record MQTTClient =
  client_id :: string
  mqtt_client :: Client
  connected :: bool
  sub_topics :: "ref option"

text \<open>\<open>__init__(self, *, client_id, sub_topics=None)\<close>\<close>

definition MQTTClient_init :: "string \<Rightarrow> ref option arg \<Rightarrow> MQTTClient" where
  "MQTTClient_init client_id_arg sub_topics_arg =
     (let cid = strip client_id_arg;
          mc = Client_init cid;
          mc = setattr ''on_connect'' Bound_on_connect mc;
          mc = setattr ''on_message'' Static_on_message mc;
          mc = setattr ''on_disconnect'' Bound_on_disconnect mc
      in \<lparr>client_id = cid, mqtt_client = mc, connected = False,
          sub_topics = arg_or None sub_topics_arg\<rparr>)"

text \<open>
  \<open>connect(self, ip, port=1883, keepalive=60)\<close>. The two statements are not guarded: when
  the library's \<open>connect\<close> raises, the exception leaves the method and \<open>subscribe\<close> is not
  called. The result is the exception raised, if any, and the instance afterwards.
\<close>

definition MQTTClient_connect ::
    "paho_lib \<Rightarrow> string \<Rightarrow> int arg \<Rightarrow> int arg \<Rightarrow> MQTTClient \<Rightarrow> world
      \<Rightarrow> exn option \<times> MQTTClient" where
  "MQTTClient_connect lib ip port keepalive self w =
     (let p = arg_or 1883 port;
          k = arg_or 60 keepalive;
          mc = invoke (Connect ip p k) (mqtt_client self)
      in case connect_raises lib ip p k of
           Some e \<Rightarrow> (Some e, self\<lparr>mqtt_client := mc\<rparr>)
         | None \<Rightarrow>
             (case sub_topics self of
                None \<Rightarrow> (None, self\<lparr>mqtt_client := mc\<rparr>)
              | Some r \<Rightarrow>
                  if list_objs w r \<noteq> []
                  then (subscribe_raises lib (list_objs w r),
                        self\<lparr>mqtt_client := invoke (Subscribe (list_objs w r)) mc\<rparr>)
                  else (None, self\<lparr>mqtt_client := mc\<rparr>)))"

text \<open>\<open>on_connect(self, client, user_data, flags, rc)\<close>; only \<open>rc\<close> is read.\<close>

definition MQTTClient_on_connect :: "int \<Rightarrow> MQTTClient \<Rightarrow> world \<Rightarrow> MQTTClient \<times> world" where
  "MQTTClient_on_connect rc self w =
     (if rc = 0 then (self\<lparr>connected := True\<rparr>, py_print (client_id self) ''connected'' w)
      else (self, w))"

text \<open>The static \<open>on_message(client, user_data, msg)\<close>: \<open>pass\<close>.\<close>

definition MQTTClient_on_message :: "'p MQTTMessage \<Rightarrow> world \<Rightarrow> world" where
  "MQTTClient_on_message msg w = w"

text \<open>\<open>on_disconnect(self, client, user_data, rc)\<close>\<close>

definition MQTTClient_on_disconnect :: "int \<Rightarrow> MQTTClient \<Rightarrow> MQTTClient" where
  "MQTTClient_on_disconnect rc self = self\<lparr>connected := False\<rparr>"


section \<open>server.py: class MQTTServer\<close>

record MQTTServer =
  server_id :: string
  mqtt_server :: Client
  connected :: bool
  sub_topics :: "ref option"
  connected_clients :: "string \<rightharpoonup> string"

text \<open>
  Executing the class body evaluates the default of \<open>sub_topics\<close> once: the list
  \<open>[('client/+', 0)]\<close> is made then, and \<open>__init__\<close> keeps the reference to it.
\<close>

definition MQTTServer_class :: "world \<Rightarrow> ref \<times> world" where
  "MQTTServer_class w = new_list [(''client/+'', 0)] w"

text \<open>
  The property getter \<open>on_message(self)\<close>: it defines \<open>default_on_message\<close> and returns
  it, reading no attribute of \<open>self\<close>.
\<close>

definition MQTTServer_on_message :: "MQTTServer \<Rightarrow> world \<Rightarrow> handler \<times> world" where
  "MQTTServer_on_message self w = (Default_on_message (next_id w), w\<lparr>next_id := Suc (next_id w)\<rparr>)"

text \<open>The body of \<open>default_on_message(client, user_data, msg)\<close>; \<open>decode\<close> is \<open>bytes.decode\<close>.\<close>

definition default_on_message :: "('p \<Rightarrow> string) \<Rightarrow> 'p MQTTMessage \<Rightarrow> world \<Rightarrow> world" where
  "default_on_message decode msg w =
     (let message = decode (payload msg); t = topic msg in py_print t message w)"

text \<open>The property setter \<open>on_message(self, callback)\<close>.\<close>

definition MQTTServer_on_message_setter :: "handler \<Rightarrow> MQTTServer \<Rightarrow> MQTTServer" where
  "MQTTServer_on_message_setter callback self =
     self\<lparr>mqtt_server := setattr ''on_message'' callback (mqtt_server self)\<rparr>"

text \<open>
  \<open>__init__(self, *, server_id="server", username=None, password=None,
  sub_topics=[('client/+', 0)])\<close>; \<open>dflt\<close> is the reference kept by the class. The
  right-hand side \<open>self.on_message\<close> calls the property getter, which reads no attribute,
  so it is given the instance as it will be.
\<close>

definition MQTTServer_init ::
    "ref \<Rightarrow> string arg \<Rightarrow> string option arg \<Rightarrow> string option arg \<Rightarrow> ref option arg \<Rightarrow> world
      \<Rightarrow> MQTTServer \<times> world" where
  "MQTTServer_init dflt server_id_arg username_arg password_arg sub_topics_arg w =
     (let sid = strip (arg_or ''server'' server_id_arg);
          username = arg_or None username_arg;
          password = arg_or None password_arg;
          ms = Client_init sid;
          ms = (if truthy_str username \<or> truthy_str password
                then invoke (Username_pw_set username password) ms else ms);
          ms = setattr ''on_connect'' Bound_on_connect ms;
          self = \<lparr>server_id = sid, mqtt_server = ms, connected = False,
                  sub_topics = arg_or (Some dflt) sub_topics_arg,
                  connected_clients = Map.empty\<rparr>;
          (h, w') = MQTTServer_on_message self w;
          ms = setattr ''on_message'' h ms;
          ms = setattr ''on_disconnect'' Bound_on_disconnect ms
      in (self\<lparr>mqtt_server := ms\<rparr>, w'))"

text \<open>
  \<open>connect(self, ip, port=1883, keepalive=60)\<close>, with the same two unguarded statements
  as the client's.
\<close>

definition MQTTServer_connect ::
    "paho_lib \<Rightarrow> string \<Rightarrow> int arg \<Rightarrow> int arg \<Rightarrow> MQTTServer \<Rightarrow> world
      \<Rightarrow> exn option \<times> MQTTServer" where
  "MQTTServer_connect lib ip port keepalive self w =
     (let p = arg_or 1883 port;
          k = arg_or 60 keepalive;
          ms = invoke (Connect ip p k) (mqtt_server self)
      in case connect_raises lib ip p k of
           Some e \<Rightarrow> (Some e, self\<lparr>mqtt_server := ms\<rparr>)
         | None \<Rightarrow>
             (case sub_topics self of
                None \<Rightarrow> (None, self\<lparr>mqtt_server := ms\<rparr>)
              | Some r \<Rightarrow>
                  if list_objs w r \<noteq> []
                  then (subscribe_raises lib (list_objs w r),
                        self\<lparr>mqtt_server := invoke (Subscribe (list_objs w r)) ms\<rparr>)
                  else (None, self\<lparr>mqtt_server := ms\<rparr>)))"

text \<open>\<open>on_connect(self, client, user_data, flags, rc)\<close>; only \<open>rc\<close> is read.\<close>

definition MQTTServer_on_connect :: "int \<Rightarrow> MQTTServer \<Rightarrow> world \<Rightarrow> MQTTServer \<times> world" where
  "MQTTServer_on_connect rc self w =
     (if rc = 0 then (self\<lparr>connected := True\<rparr>, py_print (server_id self) ''connected'' w)
      else (self, w))"

text \<open>\<open>on_disconnect(self, client, user_data, rc)\<close>\<close>

definition MQTTServer_on_disconnect :: "int \<Rightarrow> MQTTServer \<Rightarrow> MQTTServer" where
  "MQTTServer_on_disconnect rc self = self\<lparr>connected := False\<rparr>"

text \<open>\<open>publish(self, message, topic=None)\<close>: the body is \<open>pass\<close>.\<close>

definition MQTTServer_publish :: "'d message \<Rightarrow> string option \<Rightarrow> MQTTServer \<Rightarrow> unit \<times> MQTTServer" where
  "MQTTServer_publish message topic_arg self = ((), self)"

section \<open>What the constructors and the allocation steps compute\<close>

lemmas handle_defs = Client_init_def setattr_def invoke_def

lemma arg_or_simps:
  "arg_or d Omitted = d"
  "arg_or d (Given v) = v"
  by (simp_all add: arg_or_def)

lemma truthy_str_simps:
  "truthy_str None = False"
  "truthy_str (Some t) = (t \<noteq> [])"
  by (simp_all add: truthy_str_def)

lemma MQTTClient_init_eq:
  "MQTTClient_init cid st =
     \<lparr>client_id = strip cid,
      mqtt_client =
        \<lparr>paho_client_id = strip cid,
         attrs = [''on_connect'' \<mapsto> Bound_on_connect, ''on_message'' \<mapsto> Static_on_message,
                  ''on_disconnect'' \<mapsto> Bound_on_disconnect],
         calls = []\<rparr>,
      connected = False,
      sub_topics = arg_or None st\<rparr>"
  by (simp add: MQTTClient_init_def handle_defs Let_def)

lemma MQTTServer_class_eq:
  "MQTTServer_class w =
     (next_id w,
      w\<lparr>list_objs := (list_objs w)(next_id w := [(''client/+'', 0)]), next_id := Suc (next_id w)\<rparr>)"
  by (simp add: MQTTServer_class_def new_list_def)

lemma MQTTServer_on_message_eq:
  "fst (MQTTServer_on_message s w) = Default_on_message (next_id w)"
  "snd (MQTTServer_on_message s w) = w\<lparr>next_id := Suc (next_id w)\<rparr>"
  by (simp_all add: MQTTServer_on_message_def)

lemma MQTTServer_init_eq:
  "MQTTServer_init d sid u p st w =
     (\<lparr>server_id = strip (arg_or ''server'' sid),
       mqtt_server =
         \<lparr>paho_client_id = strip (arg_or ''server'' sid),
          attrs = [''on_connect'' \<mapsto> Bound_on_connect,
                   ''on_message'' \<mapsto> Default_on_message (next_id w),
                   ''on_disconnect'' \<mapsto> Bound_on_disconnect],
          calls = (if truthy_str (arg_or None u) \<or> truthy_str (arg_or None p)
                   then [Username_pw_set (arg_or None u) (arg_or None p)] else [])\<rparr>,
       connected = False,
       sub_topics = arg_or (Some d) st,
       connected_clients = Map.empty\<rparr>,
      w\<lparr>next_id := Suc (next_id w)\<rparr>)"
  by (simp add: MQTTServer_init_def MQTTServer_on_message_def handle_defs Let_def)


section \<open>Properties\<close>

subsection \<open>publish\<close>



text \<open>
  C2: \<open>MQTTServer.publish\<close> is an empty stub. For every message and topic it returns
  \<open>None\<close> and leaves the instance as it was, the handle and its list of calls included.
\<close>

theorem MQTTServer_publish_stub:
  "MQTTServer_publish message topic_arg self = ((), self)
   \<and> calls (mqtt_server (snd (MQTTServer_publish message topic_arg self))) = calls (mqtt_server self)"
  unfolding MQTTServer_publish_def by simp

subsection \<open>Construction\<close>

text \<open>
  C3: each constructor makes one handle, for the stripped identifier, and assigns
  exactly three attributes on it: \<open>on_connect\<close>, \<open>on_message\<close> and \<open>on_disconnect\<close>, each
  to the wrapper's handler of that name. For the server, \<open>self.on_message\<close> is the
  property, so the handler is the closure its getter returns during construction.
\<close>

theorem constructors_wire_three_callbacks:
  "mqtt_client (MQTTClient_init cid st) =
     \<lparr>paho_client_id = strip cid,
      attrs = [''on_connect'' \<mapsto> Bound_on_connect, ''on_message'' \<mapsto> Static_on_message,
               ''on_disconnect'' \<mapsto> Bound_on_disconnect],
      calls = []\<rparr>
   \<and> dom (attrs (mqtt_client (MQTTClient_init cid st)))
       = {''on_connect'', ''on_message'', ''on_disconnect''}
   \<and> paho_client_id (mqtt_server (fst (MQTTServer_init d sid u p st' w)))
       = strip (arg_or ''server'' sid)
   \<and> attrs (mqtt_server (fst (MQTTServer_init d sid u p st' w))) =
       [''on_connect'' \<mapsto> Bound_on_connect,
        ''on_message'' \<mapsto> fst (MQTTServer_on_message (fst (MQTTServer_init d sid u p st' w)) w),
        ''on_disconnect'' \<mapsto> Bound_on_disconnect]
   \<and> fst (MQTTServer_on_message (fst (MQTTServer_init d sid u p st' w)) w)
       = Default_on_message (next_id w)
   \<and> dom (attrs (mqtt_server (fst (MQTTServer_init d sid u p st' w))))
       = {''on_connect'', ''on_message'', ''on_disconnect''}"
proof -
  have three: "dom [''on_connect'' \<mapsto> a, ''on_message'' \<mapsto> b, ''on_disconnect'' \<mapsto> c]
      = {''on_connect'', ''on_message'', ''on_disconnect''}" for a b c :: handler
    by auto
  have client: "attrs (mqtt_client (MQTTClient_init cid st)) =
      [''on_connect'' \<mapsto> Bound_on_connect, ''on_message'' \<mapsto> Static_on_message,
       ''on_disconnect'' \<mapsto> Bound_on_disconnect]"
    by (simp add: MQTTClient_init_eq)
  have server: "attrs (mqtt_server (fst (MQTTServer_init d sid u p st' w))) =
      [''on_connect'' \<mapsto> Bound_on_connect, ''on_message'' \<mapsto> Default_on_message (next_id w),
       ''on_disconnect'' \<mapsto> Bound_on_disconnect]"
    by (simp add: MQTTServer_init_eq)
  have "dom (attrs (mqtt_client (MQTTClient_init cid st)))
      = {''on_connect'', ''on_message'', ''on_disconnect''}"
    unfolding client by (rule three)
  moreover have "dom (attrs (mqtt_server (fst (MQTTServer_init d sid u p st' w))))
      = {''on_connect'', ''on_message'', ''on_disconnect''}"
    unfolding server by (rule three)
  moreover have "mqtt_client (MQTTClient_init cid st) =
     \<lparr>paho_client_id = strip cid,
      attrs = [''on_connect'' \<mapsto> Bound_on_connect, ''on_message'' \<mapsto> Static_on_message,
               ''on_disconnect'' \<mapsto> Bound_on_disconnect],
      calls = []\<rparr>"
    by (simp add: MQTTClient_init_eq)
  moreover have "paho_client_id (mqtt_server (fst (MQTTServer_init d sid u p st' w)))
       = strip (arg_or ''server'' sid)"
    by (simp add: MQTTServer_init_eq)
  ultimately show ?thesis
    using server by (simp add: MQTTServer_on_message_eq)
qed

text \<open>
  C6: the server's constructor calls \<open>username_pw_set(username, password)\<close> on the handle
  exactly when \<open>username\<close> or \<open>password\<close> is truthy, and makes no other call. With both
  omitted, both \<open>None\<close> or both the empty string, no credentials are set.
\<close>

theorem MQTTServer_init_credentials:
  "calls (mqtt_server (fst (MQTTServer_init d sid u p st w))) =
     (if truthy_str (arg_or None u) \<or> truthy_str (arg_or None p)
      then [Username_pw_set (arg_or None u) (arg_or None p)] else [])
   \<and> truthy_str x = (x \<noteq> None \<and> x \<noteq> Some '''')
   \<and> calls (mqtt_server (fst (MQTTServer_init d sid Omitted Omitted st w))) = []
   \<and> calls (mqtt_server (fst (MQTTServer_init d sid (Given None) (Given None) st w))) = []
   \<and> calls (mqtt_server (fst (MQTTServer_init d sid (Given (Some '''')) (Given (Some '''')) st w))) = []"
proof -
  have "truthy_str x = (x \<noteq> None \<and> x \<noteq> Some '''')"
    by (cases x) (simp_all add: truthy_str_simps)
  then show ?thesis
    by (simp add: MQTTServer_init_eq arg_or_simps truthy_str_simps)
qed

text \<open>
  C7: the default of \<open>sub_topics\<close> is the list \<open>[('client/+', 0)]\<close>, made once with the
  class. A server constructed without \<open>sub_topics\<close> holds the reference to that list; the
  constructor changes and copies no list. So a change made to the list through one such
  server is read through every other: after an \<open>append\<close> through the first of two
  servers, the second one's \<open>sub_topics\<close> holds the appended topic too.
\<close>

theorem MQTTServer_default_sub_topics_shared:
  "list_objs (snd (MQTTServer_class w0)) (fst (MQTTServer_class w0)) = [(''client/+'', 0)]
   \<and> sub_topics (fst (MQTTServer_init d sid1 u1 p1 Omitted w1)) = Some d
   \<and> sub_topics (fst (MQTTServer_init d sid2 u2 p2 Omitted w2)) = Some d
   \<and> list_objs (snd (MQTTServer_init d sid1 u1 p1 st w1)) = list_objs w1
   \<and> list_objs (list_mutate (the (sub_topics (fst (MQTTServer_init d sid1 u1 p1 Omitted w1)))) f w)
        (the (sub_topics (fst (MQTTServer_init d sid2 u2 p2 Omitted w2))))
       = f (list_objs w (the (sub_topics (fst (MQTTServer_init d sid2 u2 p2 Omitted w2)))))
   \<and> (let (d0, wa) = MQTTServer_class w0;
           (s1, wb) = MQTTServer_init d0 Omitted Omitted Omitted Omitted wa;
           (s2, wc) = MQTTServer_init d0 (Given ''other'') Omitted Omitted Omitted wb;
           wd = list_append (the (sub_topics s1)) (''extra'', 1) wc
       in list_objs wd (the (sub_topics s2)))
       = [(''client/+'', 0), (''extra'', 1)]"
proof -
  have made: "list_objs (snd (MQTTServer_class w0)) (fst (MQTTServer_class w0)) = [(''client/+'', 0)]"
    by (simp add: MQTTServer_class_eq)
  have held: "sub_topics (fst (MQTTServer_init d sid u p Omitted w')) = Some d" for sid u p w'
    by (simp add: MQTTServer_init_eq arg_or_simps)
  have kept: "list_objs (snd (MQTTServer_init d sid1 u1 p1 st w1)) = list_objs w1"
    by (simp add: MQTTServer_init_eq)
  have seen: "list_objs (list_mutate d f w) d = f (list_objs w d)"
    by (simp add: list_mutate_def)
  have run: "(let (d0, wa) = MQTTServer_class w0;
           (s1, wb) = MQTTServer_init d0 Omitted Omitted Omitted Omitted wa;
           (s2, wc) = MQTTServer_init d0 (Given ''other'') Omitted Omitted Omitted wb;
           wd = list_append (the (sub_topics s1)) (''extra'', 1) wc
       in list_objs wd (the (sub_topics s2)))
       = [(''client/+'', 0), (''extra'', 1)]"
    by (simp add: MQTTServer_class_eq MQTTServer_init_eq list_append_def list_mutate_def
        arg_or_simps Let_def)
  from made held kept seen run show ?thesis
    by simp
qed

subsection \<open>connect\<close>

text \<open>
  C4 as stated does not hold. When the library's \<open>connect\<close> raises, \<open>subscribe\<close> is not
  called although \<open>sub_topics\<close> is truthy: a server with the default subscription,
  connected with port 0, makes the one call \<open>connect\<close> and the \<open>ValueError\<close> leaves the
  method.
\<close>

theorem connect_pass_through_counterexample:
  "sub_topics (fst (MQTTServer_init 0 Omitted Omitted Omitted Omitted (snd (MQTTServer_class world0))))
     = Some 0
   \<and> list_objs (snd (MQTTServer_init 0 Omitted Omitted Omitted Omitted (snd (MQTTServer_class world0)))) 0
     = [(''client/+'', 0)]
   \<and> MQTTServer_connect paho_argument_checks ''127.0.0.1'' (Given 0) Omitted
        (fst (MQTTServer_init 0 Omitted Omitted Omitted Omitted (snd (MQTTServer_class world0))))
        (snd (MQTTServer_init 0 Omitted Omitted Omitted Omitted (snd (MQTTServer_class world0))))
     = (Some (Raised ''ValueError''),
        (fst (MQTTServer_init 0 Omitted Omitted Omitted Omitted (snd (MQTTServer_class world0))))
          \<lparr>mqtt_server :=
             (mqtt_server (fst (MQTTServer_init 0 Omitted Omitted Omitted Omitted
                                  (snd (MQTTServer_class world0)))))
               \<lparr>calls := [Connect ''127.0.0.1'' 0 60]\<rparr>\<rparr>)"
  by (simp add: MQTTServer_connect_def paho_argument_checks_def MQTTServer_class_eq MQTTServer_init_eq
      world0_def invoke_def arg_or_simps truthy_str_simps Let_def)

text \<open>
  C4, amended: \<open>connect(ip, port, keepalive)\<close> of either class calls \<open>connect\<close> on the handle
  with the given \<open>ip\<close>, the given \<open>port\<close> or 1883, and the given \<open>keepalive\<close> or 60. When that
  call returns, \<open>subscribe(sub_topics)\<close> is called after it exactly when \<open>sub_topics\<close> is
  neither \<open>None\<close> nor an empty list. When that call raises, the exception leaves the method
  and \<open>subscribe\<close> is not called. No other call is made and nothing else changes.
\<close>

theorem connect_pass_through:
  "(connect_raises lib ip (case port of Omitted \<Rightarrow> 1883 | Given p \<Rightarrow> p)
        (case keepalive of Omitted \<Rightarrow> 60 | Given k \<Rightarrow> k) = None \<longrightarrow>
      MQTTClient_connect lib ip port keepalive c w =
        (if MQTTClient.sub_topics c \<noteq> None \<and> list_objs w (the (MQTTClient.sub_topics c)) \<noteq> []
         then subscribe_raises lib (list_objs w (the (MQTTClient.sub_topics c))) else None,
         c\<lparr>mqtt_client := (mqtt_client c)\<lparr>calls := calls (mqtt_client c)
           @ [Connect ip (case port of Omitted \<Rightarrow> 1883 | Given p \<Rightarrow> p)
                         (case keepalive of Omitted \<Rightarrow> 60 | Given k \<Rightarrow> k)]
           @ (if MQTTClient.sub_topics c \<noteq> None \<and> list_objs w (the (MQTTClient.sub_topics c)) \<noteq> []
              then [Subscribe (list_objs w (the (MQTTClient.sub_topics c)))] else [])\<rparr>\<rparr>)
      \<and> MQTTServer_connect lib ip port keepalive s w =
        (if sub_topics s \<noteq> None \<and> list_objs w (the (sub_topics s)) \<noteq> []
         then subscribe_raises lib (list_objs w (the (sub_topics s))) else None,
         s\<lparr>mqtt_server := (mqtt_server s)\<lparr>calls := calls (mqtt_server s)
           @ [Connect ip (case port of Omitted \<Rightarrow> 1883 | Given p \<Rightarrow> p)
                         (case keepalive of Omitted \<Rightarrow> 60 | Given k \<Rightarrow> k)]
           @ (if sub_topics s \<noteq> None \<and> list_objs w (the (sub_topics s)) \<noteq> []
              then [Subscribe (list_objs w (the (sub_topics s)))] else [])\<rparr>\<rparr>))
   \<and> (connect_raises lib ip (case port of Omitted \<Rightarrow> 1883 | Given p \<Rightarrow> p)
        (case keepalive of Omitted \<Rightarrow> 60 | Given k \<Rightarrow> k) = Some e \<longrightarrow>
      MQTTClient_connect lib ip port keepalive c w =
        (Some e,
         c\<lparr>mqtt_client := (mqtt_client c)\<lparr>calls := calls (mqtt_client c)
           @ [Connect ip (case port of Omitted \<Rightarrow> 1883 | Given p \<Rightarrow> p)
                         (case keepalive of Omitted \<Rightarrow> 60 | Given k \<Rightarrow> k)]\<rparr>\<rparr>)
      \<and> MQTTServer_connect lib ip port keepalive s w =
        (Some e,
         s\<lparr>mqtt_server := (mqtt_server s)\<lparr>calls := calls (mqtt_server s)
           @ [Connect ip (case port of Omitted \<Rightarrow> 1883 | Given p \<Rightarrow> p)
                         (case keepalive of Omitted \<Rightarrow> 60 | Given k \<Rightarrow> k)]\<rparr>\<rparr>))"
proof -
  have args: "arg_or d a = (case a of Omitted \<Rightarrow> d | Given v \<Rightarrow> v)" for d :: int and a
    by (simp add: arg_or_def)
  show ?thesis
    by (cases "MQTTClient.sub_topics c"; cases "sub_topics s")
       (simp_all add: MQTTClient_connect_def MQTTServer_connect_def invoke_def args Let_def)
qed

theorem connect_pass_through_witness:
  "connect_raises paho_argument_checks ''127.0.0.1'' 1883 60 = None
   \<and> calls (mqtt_server (snd (MQTTServer_connect paho_argument_checks ''127.0.0.1'' Omitted Omitted
        (fst (MQTTServer_init 0 Omitted Omitted Omitted Omitted (snd (MQTTServer_class world0))))
        (snd (MQTTServer_init 0 Omitted Omitted Omitted Omitted (snd (MQTTServer_class world0)))))))
     = [Connect ''127.0.0.1'' 1883 60, Subscribe [(''client/+'', 0)]]
   \<and> calls (mqtt_client (snd (MQTTClient_connect paho_argument_checks ''127.0.0.1'' Omitted Omitted
        (MQTTClient_init ''c1'' Omitted)
        (snd (MQTTServer_init 0 Omitted Omitted Omitted Omitted (snd (MQTTServer_class world0)))))))
     = [Connect ''127.0.0.1'' 1883 60]
   \<and> connect_raises paho_argument_checks ''127.0.0.1'' 0 60 = Some (Raised ''ValueError'')
   \<and> calls (mqtt_server (snd (MQTTServer_connect paho_argument_checks ''127.0.0.1'' (Given 0) Omitted
        (fst (MQTTServer_init 0 Omitted Omitted Omitted Omitted (snd (MQTTServer_class world0))))
        (snd (MQTTServer_init 0 Omitted Omitted Omitted Omitted (snd (MQTTServer_class world0)))))))
     = [Connect ''127.0.0.1'' 0 60]
   \<and> fst (MQTTClient_connect paho_argument_checks ''127.0.0.1'' (Given 0) Omitted
        (MQTTClient_init ''c1'' Omitted)
        (snd (MQTTServer_init 0 Omitted Omitted Omitted Omitted (snd (MQTTServer_class world0)))))
     = Some (Raised ''ValueError'')"
  using connect_pass_through
    [where lib = paho_argument_checks and ip = "''127.0.0.1''" and port = Omitted
       and keepalive = Omitted and c = "MQTTClient_init ''c1'' Omitted"
       and s = "fst (MQTTServer_init 0 Omitted Omitted Omitted Omitted (snd (MQTTServer_class world0)))"
       and w = "snd (MQTTServer_init 0 Omitted Omitted Omitted Omitted (snd (MQTTServer_class world0)))"]
        connect_pass_through
    [where lib = paho_argument_checks and ip = "''127.0.0.1''" and port = "Given 0"
       and keepalive = Omitted and e = "Raised ''ValueError''"
       and c = "MQTTClient_init ''c1'' Omitted"
       and s = "fst (MQTTServer_init 0 Omitted Omitted Omitted Omitted (snd (MQTTServer_class world0)))"
       and w = "snd (MQTTServer_init 0 Omitted Omitted Omitted Omitted (snd (MQTTServer_class world0)))"]
  by (simp add: paho_argument_checks_def MQTTServer_class_eq MQTTServer_init_eq MQTTClient_init_eq
      world0_def arg_or_simps truthy_str_simps)

subsection \<open>The server's on_message property\<close>

text \<open>
  C5: assigning a callable \<open>c\<close> to \<open>server.on_message\<close> runs the property setter, which
  makes \<open>c\<close> the \<open>on_message\<close> attribute of the handle and changes nothing else.
\<close>

theorem MQTTServer_on_message_setter_installs:
  "attrs (mqtt_server (MQTTServer_on_message_setter c s)) ''on_message'' = Some c
   \<and> MQTTServer_on_message_setter c s =
       s\<lparr>mqtt_server := (mqtt_server s)\<lparr>attrs := (attrs (mqtt_server s))(''on_message'' \<mapsto> c)\<rparr>\<rparr>"
  unfolding MQTTServer_on_message_setter_def setattr_def by simp

text \<open>
  C9: reading \<open>server.on_message\<close> returns a new closure \<open>default_on_message\<close> each time,
  one that did not exist before the read; the closure decodes the payload and prints the
  topic and the message. What is read does not depend on the assignments made before:
  after \<open>server.on_message = c\<close>, or after any number of assignments, the read returns
  that new default closure, and it is not \<open>c\<close> for any callable \<open>c\<close> that exists.
\<close>

theorem MQTTServer_on_message_getter_default:
  "fst (MQTTServer_on_message s w) = Default_on_message (next_id w)
   \<and> next_id (snd (MQTTServer_on_message s w)) = Suc (next_id w)
   \<and> \<not> allocated w (fst (MQTTServer_on_message s w))
   \<and> fst (MQTTServer_on_message (MQTTServer_on_message_setter c s) w) = fst (MQTTServer_on_message s w)
   \<and> fst (MQTTServer_on_message (fold MQTTServer_on_message_setter cs s) w)
       = fst (MQTTServer_on_message s w)
   \<and> (allocated w c \<longrightarrow> fst (MQTTServer_on_message (MQTTServer_on_message_setter c s) w) \<noteq> c)
   \<and> stdout (default_on_message decode msg w) = stdout w @ [topic msg @ '' '' @ decode (payload msg)]"
proof -
  have fresh: "\<not> allocated w (Default_on_message (next_id w))"
    by (simp add: allocated_def)
  have other: "allocated w c \<Longrightarrow> Default_on_message (next_id w) \<noteq> c"
    using fresh by auto
  have prints: "stdout (default_on_message decode msg w)
      = stdout w @ [topic msg @ '' '' @ decode (payload msg)]"
    by (simp add: default_on_message_def py_print_def)
  from fresh other prints show ?thesis
    by (simp add: MQTTServer_on_message_eq)
qed

theorem MQTTServer_on_message_getter_default_witness:
  "allocated (snd (MQTTServer_init 0 Omitted Omitted Omitted Omitted (snd (MQTTServer_class world0))))
     (Default_on_message 1)
   \<and> attrs (mqtt_server (MQTTServer_on_message_setter (Default_on_message 1)
        (fst (MQTTServer_init 0 Omitted Omitted Omitted Omitted (snd (MQTTServer_class world0))))))
        ''on_message'' = Some (Default_on_message 1)
   \<and> fst (MQTTServer_on_message
        (MQTTServer_on_message_setter (Default_on_message 1)
           (fst (MQTTServer_init 0 Omitted Omitted Omitted Omitted (snd (MQTTServer_class world0)))))
        (snd (MQTTServer_init 0 Omitted Omitted Omitted Omitted (snd (MQTTServer_class world0)))))
       = Default_on_message 2
   \<and> fst (MQTTServer_on_message
        (MQTTServer_on_message_setter (Default_on_message 1)
           (fst (MQTTServer_init 0 Omitted Omitted Omitted Omitted (snd (MQTTServer_class world0)))))
        (snd (MQTTServer_init 0 Omitted Omitted Omitted Omitted (snd (MQTTServer_class world0)))))
       \<noteq> Default_on_message 1"
  using MQTTServer_on_message_getter_default
    [where s = "fst (MQTTServer_init 0 Omitted Omitted Omitted Omitted (snd (MQTTServer_class world0)))"
       and w = "snd (MQTTServer_init 0 Omitted Omitted Omitted Omitted (snd (MQTTServer_class world0)))"
       and c = "Default_on_message 1"]
  by (simp add: MQTTServer_class_eq MQTTServer_init_eq MQTTServer_on_message_eq
      MQTTServer_on_message_setter_def setattr_def world0_def allocated_def
      arg_or_simps truthy_str_simps eval_nat_numeral)

subsection \<open>The connected flag\<close>

text \<open>
  C10: for both classes \<open>connected\<close> is \<open>False\<close> after construction; \<open>on_connect\<close> sets it
  to \<open>True\<close> when \<open>rc\<close> is 0 and leaves it as it was otherwise; \<open>on_disconnect\<close> sets it to
  \<open>False\<close> whatever \<open>rc\<close> is.
\<close>

theorem connected_flag:
  "\<not> MQTTClient.connected (MQTTClient_init cid st)
   \<and> \<not> connected (fst (MQTTServer_init d sid u p st' w))
   \<and> (rc = 0 \<longrightarrow> MQTTClient.connected (fst (MQTTClient_on_connect rc c w))
                \<and> connected (fst (MQTTServer_on_connect rc s w)))
   \<and> (rc \<noteq> 0 \<longrightarrow> MQTTClient.connected (fst (MQTTClient_on_connect rc c w)) = MQTTClient.connected c
                \<and> connected (fst (MQTTServer_on_connect rc s w)) = connected s)
   \<and> \<not> MQTTClient.connected (MQTTClient_on_disconnect rc' c)
   \<and> \<not> connected (MQTTServer_on_disconnect rc' s)"
proof (cases "rc = 0")
  case True
  then show ?thesis
    by (simp add: MQTTClient_init_eq MQTTServer_init_eq MQTTClient_on_connect_def
        MQTTServer_on_connect_def MQTTClient_on_disconnect_def MQTTServer_on_disconnect_def)
next
  case False
  then show ?thesis
    by (simp add: MQTTClient_init_eq MQTTServer_init_eq MQTTClient_on_connect_def
        MQTTServer_on_connect_def MQTTClient_on_disconnect_def MQTTServer_on_disconnect_def)
qed

theorem connected_flag_witness:
  "MQTTClient.connected (fst (MQTTClient_on_connect 0 (MQTTClient_init ''c1'' Omitted) world0))
   \<and> connected (fst (MQTTServer_on_connect 0
        (fst (MQTTServer_init 0 Omitted Omitted Omitted Omitted (snd (MQTTServer_class world0)))) world0))
   \<and> \<not> MQTTClient.connected (fst (MQTTClient_on_connect 5 (MQTTClient_init ''c1'' Omitted) world0))
   \<and> \<not> connected (fst (MQTTServer_on_connect 5
        (fst (MQTTServer_init 0 Omitted Omitted Omitted Omitted (snd (MQTTServer_class world0)))) world0))
   \<and> MQTTClient.connected (fst (MQTTClient_on_connect 5
        (fst (MQTTClient_on_connect 0 (MQTTClient_init ''c1'' Omitted) world0)) world0))"
  using connected_flag
    [where rc = 0 and c = "MQTTClient_init ''c1'' Omitted" and w = world0
       and s = "fst (MQTTServer_init 0 Omitted Omitted Omitted Omitted (snd (MQTTServer_class world0)))"]
        connected_flag
    [where rc = 5 and c = "MQTTClient_init ''c1'' Omitted" and w = world0
       and s = "fst (MQTTServer_init 0 Omitted Omitted Omitted Omitted (snd (MQTTServer_class world0)))"]
        connected_flag
    [where rc = 5 and c = "fst (MQTTClient_on_connect 0 (MQTTClient_init ''c1'' Omitted) world0)"
       and w = world0]
  by (simp add: MQTTClient_on_connect_def MQTTServer_on_connect_def MQTTClient_init_eq
      MQTTServer_init_eq)

end
